theory Spec2Isabelle
  imports Complex_Main
begin

section \<open>JavaScript numbers\<close>

text \<open>
  Every quantity of the calculator is a JavaScript number. A number is modelled as a finite
  real, one of the two infinities, or NaN. Finite arithmetic is exact: rounding to 53 bits,
  overflow of finite results to an infinity and the sign of zero are not modelled (a zero
  divisor counts as +0). What is modelled is what decides the behaviour of the formulas at
  their edges: a quotient by zero is an infinity or NaN, the logarithm of a negative number
  is NaN, and every comparison with NaN is false.
\<close>

datatype jsnum = Fin real | PInf | NInf | NaN

fun js_neg :: "jsnum \<Rightarrow> jsnum" where
  "js_neg (Fin a) = Fin (- a)"
| "js_neg PInf = NInf"
| "js_neg NInf = PInf"
| "js_neg NaN = NaN"

fun js_add :: "jsnum \<Rightarrow> jsnum \<Rightarrow> jsnum" where
  "js_add NaN y = NaN"
| "js_add x NaN = NaN"
| "js_add (Fin a) (Fin b) = Fin (a + b)"
| "js_add (Fin a) PInf = PInf"
| "js_add (Fin a) NInf = NInf"
| "js_add PInf NInf = NaN"
| "js_add PInf y = PInf"
| "js_add NInf PInf = NaN"
| "js_add NInf y = NInf"

definition js_sub :: "jsnum \<Rightarrow> jsnum \<Rightarrow> jsnum" where
  "js_sub x y = js_add x (js_neg y)"

fun js_mul :: "jsnum \<Rightarrow> jsnum \<Rightarrow> jsnum" where
  "js_mul NaN y = NaN"
| "js_mul x NaN = NaN"
| "js_mul (Fin a) (Fin b) = Fin (a * b)"
| "js_mul (Fin a) PInf = (if a = 0 then NaN else if 0 < a then PInf else NInf)"
| "js_mul (Fin a) NInf = (if a = 0 then NaN else if 0 < a then NInf else PInf)"
| "js_mul PInf (Fin b) = (if b = 0 then NaN else if 0 < b then PInf else NInf)"
| "js_mul NInf (Fin b) = (if b = 0 then NaN else if 0 < b then NInf else PInf)"
| "js_mul PInf PInf = PInf"
| "js_mul PInf NInf = NInf"
| "js_mul NInf PInf = NInf"
| "js_mul NInf NInf = PInf"

fun js_div :: "jsnum \<Rightarrow> jsnum \<Rightarrow> jsnum" where
  "js_div NaN y = NaN"
| "js_div x NaN = NaN"
| "js_div (Fin a) (Fin b) =
     (if b = 0 then (if a = 0 then NaN else if 0 < a then PInf else NInf) else Fin (a / b))"
| "js_div (Fin a) y = Fin 0"
| "js_div PInf (Fin b) = (if b < 0 then NInf else PInf)"
| "js_div NInf (Fin b) = (if b < 0 then PInf else NInf)"
| "js_div x y = NaN"

text \<open>The comparisons \<open><\<close>, \<open>>\<close>, \<open><=\<close>, \<open>>=\<close> and \<open>===\<close>.\<close>

fun js_lt :: "jsnum \<Rightarrow> jsnum \<Rightarrow> bool" where
  "js_lt NaN y = False"
| "js_lt x NaN = False"
| "js_lt (Fin a) (Fin b) = (a < b)"
| "js_lt (Fin a) PInf = True"
| "js_lt (Fin a) NInf = False"
| "js_lt PInf y = False"
| "js_lt NInf NInf = False"
| "js_lt NInf y = True"

fun js_eq :: "jsnum \<Rightarrow> jsnum \<Rightarrow> bool" where
  "js_eq NaN y = False"
| "js_eq x NaN = False"
| "js_eq (Fin a) (Fin b) = (a = b)"
| "js_eq PInf PInf = True"
| "js_eq NInf NInf = True"
| "js_eq x y = False"

definition js_gt :: "jsnum \<Rightarrow> jsnum \<Rightarrow> bool" where
  "js_gt x y = js_lt y x"

definition js_le :: "jsnum \<Rightarrow> jsnum \<Rightarrow> bool" where
  "js_le x y = (js_lt x y \<or> js_eq x y)"

definition js_ge :: "jsnum \<Rightarrow> jsnum \<Rightarrow> bool" where
  "js_ge x y = js_le y x"

text \<open>\<open>Math.max\<close> and \<open>Math.min\<close> of two arguments: NaN when either is NaN.\<close>

fun js_max :: "jsnum \<Rightarrow> jsnum \<Rightarrow> jsnum" where
  "js_max NaN y = NaN"
| "js_max x NaN = NaN"
| "js_max x y = (if js_lt x y then y else x)"

fun js_min :: "jsnum \<Rightarrow> jsnum \<Rightarrow> jsnum" where
  "js_min NaN y = NaN"
| "js_min x NaN = NaN"
| "js_min x y = (if js_lt y x then y else x)"

text \<open>
  \<open>Math.pow\<close>, following the cases of the language definition in their order: a NaN
  exponent, a zero exponent, a NaN base, an infinite base, a zero base, an infinite
  exponent, a negative base with a fractional exponent, and the real power.
\<close>

definition is_integral :: "real \<Rightarrow> bool" where
  "is_integral y = (of_int \<lfloor>y\<rfloor> = y)"

definition is_odd_integer :: "real \<Rightarrow> bool" where
  "is_odd_integer y = (is_integral y \<and> odd \<lfloor>y\<rfloor>)"

definition fin_pow :: "real \<Rightarrow> real \<Rightarrow> jsnum" where
  "fin_pow b y =
     (if b = 0 then (if 0 < y then Fin 0 else PInf)
      else if is_integral y then Fin (b powi \<lfloor>y\<rfloor>)
      else if b < 0 then NaN
      else Fin (b powr y))"

fun js_pow :: "jsnum \<Rightarrow> jsnum \<Rightarrow> jsnum" where
  "js_pow x NaN = NaN"
| "js_pow x (Fin y) =
     (if y = 0 then Fin 1
      else case x of
        NaN \<Rightarrow> NaN
      | PInf \<Rightarrow> (if 0 < y then PInf else Fin 0)
      | NInf \<Rightarrow> (if 0 < y then (if is_odd_integer y then NInf else PInf) else Fin 0)
      | Fin b \<Rightarrow> fin_pow b y)"
| "js_pow x PInf =
     (case x of
        NaN \<Rightarrow> NaN
      | PInf \<Rightarrow> PInf
      | NInf \<Rightarrow> PInf
      | Fin b \<Rightarrow> (if 1 < \<bar>b\<bar> then PInf else if \<bar>b\<bar> = 1 then NaN else Fin 0))"
| "js_pow x NInf =
     (case x of
        NaN \<Rightarrow> NaN
      | PInf \<Rightarrow> Fin 0
      | NInf \<Rightarrow> Fin 0
      | Fin b \<Rightarrow> (if 1 < \<bar>b\<bar> then Fin 0 else if \<bar>b\<bar> = 1 then NaN else PInf))"

text \<open>\<open>Math.log\<close>: NaN below zero, minus infinity at zero.\<close>

fun js_log :: "jsnum \<Rightarrow> jsnum" where
  "js_log (Fin a) = (if a < 0 then NaN else if a = 0 then NInf else Fin (ln a))"
| "js_log PInf = PInf"
| "js_log x = NaN"

text \<open>\<open>Math.floor\<close>, and \<open>Math.round\<close>, which rounds a half upwards.\<close>

fun js_floor :: "jsnum \<Rightarrow> jsnum" where
  "js_floor (Fin a) = Fin (of_int \<lfloor>a\<rfloor>)"
| "js_floor x = x"

fun js_round :: "jsnum \<Rightarrow> jsnum" where
  "js_round (Fin a) = Fin (of_int \<lfloor>a + 1 / 2\<rfloor>)"
| "js_round x = x"

text \<open>
  The remainder operator \<open>%\<close>: the quotient is truncated towards zero, so the result has
  the sign of the dividend.
\<close>

definition js_trunc :: "real \<Rightarrow> int" where
  "js_trunc x = (if 0 \<le> x then \<lfloor>x\<rfloor> else \<lceil>x\<rceil>)"

fun js_rem :: "jsnum \<Rightarrow> jsnum \<Rightarrow> jsnum" where
  "js_rem (Fin a) (Fin b) = (if b = 0 then NaN else Fin (a - b * of_int (js_trunc (a / b))))"
| "js_rem (Fin a) PInf = Fin a"
| "js_rem (Fin a) NInf = Fin a"
| "js_rem x y = NaN"

section \<open>CalcUtilities\<close>

record duration =
  years :: jsnum
  months :: jsnum

definition safeDivide :: "jsnum \<Rightarrow> jsnum \<Rightarrow> jsnum" where
  "safeDivide numerator denominator =
     (if js_eq denominator (Fin 0) then Fin 0 else js_div numerator denominator)"

definition futureValue :: "jsnum \<Rightarrow> jsnum \<Rightarrow> jsnum \<Rightarrow> jsnum" where
  "futureValue p r y = js_mul p (js_pow (js_add (Fin 1) r) y)"

definition geometricSeries :: "jsnum \<Rightarrow> jsnum \<Rightarrow> jsnum \<Rightarrow> jsnum" where
  "geometricSeries a r n =
     (if js_eq r (Fin 1) then js_add (js_sub n a) (Fin 1)
      else
        let totalSum = js_div (js_sub (js_pow r (js_add n (Fin 1))) (Fin 1)) (js_sub r (Fin 1));
            excludedSum =
              (if js_gt a (Fin 0)
               then js_div (js_sub (js_pow r a) (Fin 1)) (js_sub r (Fin 1))
               else Fin 0)
        in js_sub totalSum excludedSum)"

definition savingsPayout :: "jsnum \<Rightarrow> jsnum \<Rightarrow> jsnum \<Rightarrow> jsnum" where
  "savingsPayout p r y =
     js_div (futureValue p r (js_sub y (Fin 1)))
            (geometricSeries (Fin 0) (js_add (Fin 1) r) (js_sub y (Fin 1)))"

definition savingsPayoutDuration :: "jsnum \<Rightarrow> jsnum \<Rightarrow> jsnum \<Rightarrow> jsnum \<Rightarrow> duration" where
  "savingsPayoutDuration savings withdrawal interestRate inflationRate =
     (let monthsInYear = Fin 12;
          base = js_div (js_add (Fin 1) interestRate) (js_add (Fin 1) inflationRate);
          adjustedGrowth = js_sub base (Fin 1);
          numerator = js_mul savings adjustedGrowth;
          denominator = js_mul withdrawal base
      in if js_eq denominator (Fin 0) \<or> js_le base (Fin 0) \<or> js_eq base (Fin 1)
            \<or> js_ge numerator denominator
         then \<lparr>years = Fin 0, months = Fin 0\<rparr>
         else
           let durationYrs =
                 js_div (js_mul (Fin (- 1))
                           (js_log (js_sub (Fin 1) (js_div numerator denominator))))
                        (js_log base);
               totalMonths = js_round (js_mul durationYrs monthsInYear)
           in \<lparr>years = js_floor durationYrs, months = js_rem totalMonths monthsInYear\<rparr>)"

section \<open>SavingsCalculator\<close>

text \<open>
  The configuration object: every field the calculator reads may be absent, and the
  destructuring pattern of each method gives the absent field its default.
\<close>

record initialValues =
  annualIncomeIncreasePercent :: "jsnum option"
  annualInflationPercent :: "jsnum option"
  annualPostRetirementReturnPercent :: "jsnum option"
  annualRetirementSavingsReturnPercent :: "jsnum option"
  endOfRetirementAge :: "jsnum option"
  minAnnualRetirementIncomePercent :: "jsnum option"
  normalRetirementAge :: "jsnum option"
  withdrawalAge :: "jsnum option"

record input =
  annualIncome :: jsnum
  currentAge :: jsnum
  currentSavings :: "jsnum option"
  retirementAge :: jsnum

record savingsDuration = duration +
  projectedMonthlyIncome :: jsnum
  projectedYearlyIncome :: jsnum

definition orDefault :: "'a option \<Rightarrow> 'a \<Rightarrow> 'a" where
  "orDefault field d = (case field of None \<Rightarrow> d | Some v \<Rightarrow> v)"

definition calculateTotalSavings :: "initialValues \<Rightarrow> jsnum \<Rightarrow> jsnum \<Rightarrow> jsnum \<Rightarrow> jsnum" where
  "calculateTotalSavings iv savings totalContributions yrs =
     (let incomeIncrease = orDefault (annualIncomeIncreasePercent iv) (Fin 0);
          savingsReturn = orDefault (annualRetirementSavingsReturnPercent iv) (Fin 0.08);
          principalFutureValue = futureValue savings savingsReturn yrs;
          adjustedContributions =
            (if js_gt totalContributions (Fin 0)
             then
               let adjustedRatio = js_add (Fin 1) savingsReturn;
                   adjustedAnnualIncome = js_add (Fin 1) incomeIncrease
               in js_mul totalContributions
                    (geometricSeries (Fin 1) (js_mul adjustedRatio adjustedAnnualIncome) yrs)
             else Fin 0)
      in js_add principalFutureValue adjustedContributions)"

definition getMaximumRetirementAge :: "initialValues \<Rightarrow> jsnum \<Rightarrow> jsnum" where
  "getMaximumRetirementAge iv age =
     js_min (orDefault (withdrawalAge iv) (Fin 75))
            (js_max (orDefault (normalRetirementAge iv) (Fin 65)) age)"

definition calculateProjectedRetirementSavings :: "initialValues \<Rightarrow> input \<Rightarrow> jsnum \<Rightarrow> jsnum" where
  "calculateProjectedRetirementSavings iv inp totalContributions =
     (let savings = orDefault (currentSavings inp) (Fin 0);
          workingYears = js_sub (retirementAge inp) (currentAge inp);
          workingSavings = calculateTotalSavings iv savings totalContributions workingYears;
          nonWorkingYearsUntilRetirement =
            js_sub (getMaximumRetirementAge iv (retirementAge inp))
                   (js_add (currentAge inp) workingYears);
          nonWorkingSavings =
            (if js_gt nonWorkingYearsUntilRetirement (Fin 0)
             then calculateTotalSavings iv workingSavings (Fin 0) nonWorkingYearsUntilRetirement
             else Fin 0)
      in js_max workingSavings nonWorkingSavings)"

definition calculateSavingsDuration :: "initialValues \<Rightarrow> input \<Rightarrow> jsnum \<Rightarrow> savingsDuration" where
  "calculateSavingsDuration iv inp totalSavingsAtRetirement =
     (let incomeIncrease = orDefault (annualIncomeIncreasePercent iv) (Fin 0);
          postRetirementReturn = orDefault (annualPostRetirementReturnPercent iv) (Fin 0.05);
          inflation = orDefault (annualInflationPercent iv) (Fin 0.03);
          endAge = orDefault (endOfRetirementAge iv) (Fin 95);
          minIncomePercent = orDefault (minAnnualRetirementIncomePercent iv) (Fin 0.8);
          monthsInYear = Fin 12;
          minAnnualRetirementIncome =
            js_mul (futureValue (annualIncome inp) incomeIncrease
                      (js_sub (retirementAge inp) (currentAge inp)))
                   (js_max (Fin 0) minIncomePercent);
          yrs = js_sub endAge (getMaximumRetirementAge iv (retirementAge inp));
          evenlyProjectedYearlyIncome =
            savingsPayout totalSavingsAtRetirement (js_sub postRetirementReturn inflation) yrs
      in if js_lt evenlyProjectedYearlyIncome minAnnualRetirementIncome
         then
           let d = savingsPayoutDuration totalSavingsAtRetirement minAnnualRetirementIncome
                     postRetirementReturn inflation
           in \<lparr>years = years d, months = months d,
               projectedMonthlyIncome = js_div minAnnualRetirementIncome monthsInYear,
               projectedYearlyIncome = minAnnualRetirementIncome\<rparr>
         else
           \<lparr>years = yrs, months = Fin 0,
            projectedMonthlyIncome = js_div evenlyProjectedYearlyIncome monthsInYear,
            projectedYearlyIncome = evenlyProjectedYearlyIncome\<rparr>)"

section \<open>The quantities the specification names\<close>

text \<open>
  The rates the projection reads from the configuration, with the defaults of
  \<open>calculateTotalSavings\<close>.
\<close>

definition savingsReturnRate :: "initialValues \<Rightarrow> jsnum" where
  "savingsReturnRate iv = orDefault (annualRetirementSavingsReturnPercent iv) (Fin 0.08)"

definition incomeGrowthRate :: "initialValues \<Rightarrow> jsnum" where
  "incomeGrowthRate iv = orDefault (annualIncomeIncreasePercent iv) (Fin 0)"

text \<open>
  The formulas of \<open>savingsPayoutDuration\<close> over the reals, in exact arithmetic: the base of
  the logarithm, the conditions of the feasibility gate, the argument of the logarithm and the
  duration in years before floor and rounding. The code evaluates them in double precision,
  where a value within rounding distance of a threshold (a whole number of years, the two
  sides of the gate) can fall on the other side of it, and where an intermediate result can
  overflow; what is stated of the record returned for all inputs is therefore stated in the
  operations of the language, and the real formulas are used for the values before floor and
  rounding and for concrete inputs away from the thresholds.
\<close>

definition growthBase :: "real \<Rightarrow> real \<Rightarrow> real" where
  "growthBase r i = (1 + r) / (1 + i)"

definition gateTrips :: "real \<Rightarrow> real \<Rightarrow> real \<Rightarrow> real \<Rightarrow> bool" where
  "gateTrips L w r i =
     (let base = growthBase r i; adjustedGrowth = base - 1
      in w * base = 0 \<or> base \<le> 0 \<or> base = 1 \<or> w * base \<le> L * adjustedGrowth)"

definition logArgument :: "real \<Rightarrow> real \<Rightarrow> real \<Rightarrow> real \<Rightarrow> real" where
  "logArgument L w r i =
     (let base = growthBase r i in 1 - L * (base - 1) / (w * base))"

definition realDuration :: "real \<Rightarrow> real \<Rightarrow> real \<Rightarrow> real \<Rightarrow> real" where
  "realDuration L w r i = - ln (logArgument L w r i) / ln (growthBase r i)"

text \<open>
  The two parts of \<open>savingsPayoutDuration\<close> in the operations of the language: the test that
  guards the logarithm, and the constant \<open>durationYrs\<close> of the logarithmic branch.
\<close>

definition feasibilityGate :: "jsnum \<Rightarrow> jsnum \<Rightarrow> jsnum \<Rightarrow> jsnum \<Rightarrow> bool" where
  "feasibilityGate savings withdrawal interestRate inflationRate =
     (let base = js_div (js_add (Fin 1) interestRate) (js_add (Fin 1) inflationRate);
          adjustedGrowth = js_sub base (Fin 1);
          numerator = js_mul savings adjustedGrowth;
          denominator = js_mul withdrawal base
      in js_eq denominator (Fin 0) \<or> js_le base (Fin 0) \<or> js_eq base (Fin 1)
         \<or> js_ge numerator denominator)"

definition durationYrs :: "jsnum \<Rightarrow> jsnum \<Rightarrow> jsnum \<Rightarrow> jsnum \<Rightarrow> jsnum" where
  "durationYrs savings withdrawal interestRate inflationRate =
     (let base = js_div (js_add (Fin 1) interestRate) (js_add (Fin 1) inflationRate);
          adjustedGrowth = js_sub base (Fin 1);
          numerator = js_mul savings adjustedGrowth;
          denominator = js_mul withdrawal base
      in js_div (js_mul (Fin (- 1))
                   (js_log (js_sub (Fin 1) (js_div numerator denominator))))
                (js_log base))"

text \<open>The record built from a real duration: whole years by floor, months by rounding.\<close>

definition durationRecord :: "real \<Rightarrow> duration" where
  "durationRecord d =
     \<lparr>years = Fin (of_int \<lfloor>d\<rfloor>),
      months = js_rem (Fin (of_int \<lfloor>d * 12 + 1 / 2\<rfloor>)) (Fin 12)\<rparr>"

text \<open>Durations compared as years, then months.\<close>

definition durationLess :: "duration \<Rightarrow> duration \<Rightarrow> bool" where
  "durationLess a b =
     (js_lt (years a) (years b) \<or> (js_eq (years a) (years b) \<and> js_lt (months a) (months b)))"

text \<open>The two phases of \<open>calculateProjectedRetirementSavings\<close>.\<close>

definition phaseA :: "initialValues \<Rightarrow> input \<Rightarrow> jsnum \<Rightarrow> jsnum" where
  "phaseA iv inp totalContributions =
     calculateTotalSavings iv (orDefault (currentSavings inp) (Fin 0)) totalContributions
       (js_sub (retirementAge inp) (currentAge inp))"

definition remainingYears :: "initialValues \<Rightarrow> input \<Rightarrow> jsnum" where
  "remainingYears iv inp =
     js_sub (getMaximumRetirementAge iv (retirementAge inp))
            (js_add (currentAge inp) (js_sub (retirementAge inp) (currentAge inp)))"

text \<open>The quantities of \<open>calculateSavingsDuration\<close> and its two results.\<close>

definition targetMinimumIncome :: "initialValues \<Rightarrow> input \<Rightarrow> jsnum" where
  "targetMinimumIncome iv inp =
     js_mul (futureValue (annualIncome inp) (incomeGrowthRate iv)
               (js_sub (retirementAge inp) (currentAge inp)))
            (js_max (Fin 0) (orDefault (minAnnualRetirementIncomePercent iv) (Fin 0.8)))"

definition retirementHorizon :: "initialValues \<Rightarrow> input \<Rightarrow> jsnum" where
  "retirementHorizon iv inp =
     js_sub (orDefault (endOfRetirementAge iv) (Fin 95))
            (getMaximumRetirementAge iv (retirementAge inp))"

definition evenPayout :: "initialValues \<Rightarrow> input \<Rightarrow> jsnum \<Rightarrow> jsnum" where
  "evenPayout iv inp lumpSum =
     savingsPayout lumpSum
       (js_sub (orDefault (annualPostRetirementReturnPercent iv) (Fin 0.05))
               (orDefault (annualInflationPercent iv) (Fin 0.03)))
       (retirementHorizon iv inp)"

definition fullHorizonResult :: "initialValues \<Rightarrow> input \<Rightarrow> jsnum \<Rightarrow> savingsDuration" where
  "fullHorizonResult iv inp lumpSum =
     \<lparr>years = retirementHorizon iv inp, months = Fin 0,
      projectedMonthlyIncome = js_div (evenPayout iv inp lumpSum) (Fin 12),
      projectedYearlyIncome = evenPayout iv inp lumpSum\<rparr>"

definition targetIncomeResult :: "initialValues \<Rightarrow> input \<Rightarrow> jsnum \<Rightarrow> savingsDuration" where
  "targetIncomeResult iv inp lumpSum =
     (let d = savingsPayoutDuration lumpSum (targetMinimumIncome iv inp)
                (orDefault (annualPostRetirementReturnPercent iv) (Fin 0.05))
                (orDefault (annualInflationPercent iv) (Fin 0.03))
      in \<lparr>years = years d, months = months d,
          projectedMonthlyIncome = js_div (targetMinimumIncome iv inp) (Fin 12),
          projectedYearlyIncome = targetMinimumIncome iv inp\<rparr>)"

text \<open>
  The specification's reading of \<open>projectIncomeAndDuration\<close>: the full horizon when the even
  payout is greater than or equal to the target, the target income otherwise.
\<close>

definition projectIncomeAndDuration :: "initialValues \<Rightarrow> input \<Rightarrow> jsnum \<Rightarrow> savingsDuration" where
  "projectIncomeAndDuration iv inp lumpSum =
     (if js_ge (evenPayout iv inp lumpSum) (targetMinimumIncome iv inp)
      then fullHorizonResult iv inp lumpSum
      else targetIncomeResult iv inp lumpSum)"

text \<open>Concrete configurations and inputs.\<close>

definition defaultValues :: initialValues where
  "defaultValues =
     \<lparr>annualIncomeIncreasePercent = None, annualInflationPercent = None,
      annualPostRetirementReturnPercent = None, annualRetirementSavingsReturnPercent = None,
      endOfRetirementAge = None, minAnnualRetirementIncomePercent = None,
      normalRetirementAge = None, withdrawalAge = None\<rparr>"

definition shortHorizon :: initialValues where
  "shortHorizon = defaultValues\<lparr>endOfRetirementAge := Some (Fin 65)\<rparr>"

definition sampleSaver :: input where
  "sampleSaver = \<lparr>annualIncome = Fin 100000, currentAge = Fin 30, currentSavings = None,
                   retirementAge = Fin 60\<rparr>"

definition earlyRetiree :: input where
  "earlyRetiree = \<lparr>annualIncome = Fin 100000, currentAge = Fin 60,
                    currentSavings = Some (Fin 20000), retirementAge = Fin 60\<rparr>"

definition negativeReturn :: initialValues where
  "negativeReturn = defaultValues\<lparr>annualRetirementSavingsReturnPercent := Some (Fin (- 0.5))\<rparr>"

section \<open>Arithmetic of the model\<close>

lemma js_add_zero_right: "js_add x (Fin 0) = x"
  by (cases x) simp_all

lemma js_sub_Fin: "js_sub (Fin a) (Fin b) = Fin (a - b)"
  by (simp add: js_sub_def)

lemma js_div_zero_not_Fin: "js_div x (Fin 0) \<noteq> Fin a"
  by (cases x) simp_all

lemma js_div_NaN_right: "js_div x NaN = NaN"
  by (cases x) simp_all

lemma geometricSeries_empty:
  "geometricSeries (Fin 0) x (Fin (- 1)) = Fin 0 \<or> geometricSeries (Fin 0) x (Fin (- 1)) = NaN"
  by (cases x) (simp_all add: geometricSeries_def js_gt_def js_sub_def Let_def)

lemma savingsPayout_zero_years: "savingsPayout p r (Fin 0) \<noteq> Fin a"
proof -
  have "geometricSeries (Fin 0) (js_add (Fin 1) r) (Fin (- 1)) = Fin 0
      \<or> geometricSeries (Fin 0) (js_add (Fin 1) r) (Fin (- 1)) = NaN"
    by (rule geometricSeries_empty)
  then show ?thesis
    by (auto simp add: savingsPayout_def js_sub_Fin js_div_zero_not_Fin js_div_NaN_right)
qed

lemma futureValue_real:
  assumes "0 < 1 + r"
  shows "futureValue (Fin p) (Fin r) (Fin y) = Fin (p * (1 + r) powr y)"
proof (cases "is_integral y")
  case True
  then have y: "y = of_int \<lfloor>y\<rfloor>" by (auto simp add: is_integral_def)
  have "(1 + r) powr of_int \<lfloor>y\<rfloor> = (1 + r) powi \<lfloor>y\<rfloor>"
    using assms by (intro powr_real_of_int') simp_all
  then have "(1 + r) powr y = (1 + r) powi \<lfloor>y\<rfloor>"
    using y by simp
  then show ?thesis using assms True
    by (simp add: futureValue_def fin_pow_def)
next
  case False
  then show ?thesis using assms
    by (auto simp add: futureValue_def fin_pow_def is_integral_def)
qed

subsection \<open>The geometric series over natural and integer indices\<close>

lemma js_pow_nat: "js_pow (Fin r) (Fin (real m)) = Fin (r ^ m)"
proof (cases "m = 0")
  case True
  then show ?thesis by simp
next
  case False
  have "is_integral (real m)" by (simp add: is_integral_def)
  moreover have "\<lfloor>real m\<rfloor> = int m" by simp
  ultimately show ?thesis using False
    by (simp add: fin_pow_def)
qed

lemma sum_below: "r \<noteq> 1 \<Longrightarrow> (\<Sum>k<m. r ^ k) = (r ^ m - 1) / (r - (1::real))"
  by (rule geometric_sum)

lemma sum_split:
  assumes "a \<le> n"
  shows "(\<Sum>k=a..n. r ^ k) = (\<Sum>k<Suc n. r ^ k) - (\<Sum>k<a. (r::real) ^ k)"
proof -
  have "{..<Suc n} = {..<a} \<union> {a..n}" using assms by auto
  moreover have "{..<a} \<inter> {a..n} = {}" by auto
  ultimately have "(\<Sum>k<Suc n. r ^ k) = (\<Sum>k<a. r ^ k) + (\<Sum>k=a..n. r ^ k)"
    by (simp add: sum.union_disjoint)
  then show ?thesis by simp
qed

lemma geometricSeries_nat:
  assumes "a \<le> n"
  shows "geometricSeries (Fin (real a)) (Fin r) (Fin (real n)) = Fin (\<Sum>k=a..n. r ^ k)"
proof (cases "r = 1")
  case True
  then show ?thesis using assms
    by (simp add: geometricSeries_def js_sub_def of_nat_diff)
next
  case False
  have total: "js_div (js_sub (js_pow (Fin r) (js_add (Fin (real n)) (Fin 1))) (Fin 1))
                 (js_sub (Fin r) (Fin 1)) = Fin (\<Sum>k<Suc n. r ^ k)"
  proof -
    have "js_pow (Fin r) (js_add (Fin (real n)) (Fin 1)) = Fin (r ^ Suc n)"
      using js_pow_nat [of r "Suc n"] by (simp add: add.commute)
    then show ?thesis using False sum_below [of r "Suc n"]
      by (simp add: js_sub_def)
  qed
  have excluded: "(if js_gt (Fin (real a)) (Fin 0)
                   then js_div (js_sub (js_pow (Fin r) (Fin (real a))) (Fin 1))
                          (js_sub (Fin r) (Fin 1))
                   else Fin 0) = Fin (\<Sum>k<a. r ^ k)"
  proof (cases "a = 0")
    case True
    then show ?thesis by (simp add: js_gt_def)
  next
    case False
    then have "js_gt (Fin (real a)) (Fin 0)" by (simp add: js_gt_def)
    then show ?thesis using \<open>r \<noteq> 1\<close> sum_below [of r a]
      by (simp add: js_pow_nat js_sub_def del: js_pow.simps)
  qed
  have "geometricSeries (Fin (real a)) (Fin r) (Fin (real n))
        = js_sub (Fin (\<Sum>k<Suc n. r ^ k)) (Fin (\<Sum>k<a. r ^ k))"
    using False unfolding geometricSeries_def Let_def total excluded by simp
  then show ?thesis using sum_split [OF assms, of r] by (simp add: js_sub_def)
qed

lemma sum_int_nat:
  assumes "0 \<le> a" and "a \<le> n"
  shows "(\<Sum>k\<in>{a..n}. (r::real) powi k) = (\<Sum>k=nat a..nat n. r ^ k)"
  by (rule sum.reindex_bij_witness [where i = int and j = nat])
     (use assms in \<open>auto simp add: power_int_def\<close>)

lemma geometricSeries_int:
  assumes "0 \<le> a" and "a \<le> n"
  shows "geometricSeries (Fin (of_int a)) (Fin r) (Fin (of_int n)) = Fin (\<Sum>k\<in>{a..n}. r powi k)"
proof -
  have "nat a \<le> nat n" using assms by simp
  then have "geometricSeries (Fin (real (nat a))) (Fin r) (Fin (real (nat n)))
             = Fin (\<Sum>k=nat a..nat n. r ^ k)"
    by (rule geometricSeries_nat)
  then show ?thesis using assms by (simp add: sum_int_nat)
qed

lemma geometricSeries_decompose:
  assumes "0 < a" and "\<not> js_eq r (Fin 1)"
  shows "geometricSeries (Fin a) r n
         = js_sub (geometricSeries (Fin 0) r n) (geometricSeries (Fin 0) r (js_sub (Fin a) (Fin 1)))"
  using assms by (simp add: geometricSeries_def js_gt_def Let_def js_sub_def js_add_zero_right)

subsection \<open>The payout duration over finite numbers\<close>

text \<open>
  These lemmas evaluate the model, whose finite arithmetic is exact. They give the value of
  the real formulas, and the record returned at concrete inputs whose duration lies away
  from a whole number of years or months; they are not used to state, for all inputs, which
  branch the code takes or which integers it returns.
\<close>

lemma js_le_Fin: "js_le (Fin a) (Fin b) = (a \<le> b)"
  by (auto simp add: js_le_def)

lemma js_ge_Fin: "js_ge (Fin a) (Fin b) = (b \<le> a)"
  by (auto simp add: js_ge_def js_le_def)

lemma base_Fin:
  "1 + i \<noteq> 0 \<Longrightarrow> js_div (js_add (Fin 1) (Fin r)) (js_add (Fin 1) (Fin i)) = Fin (growthBase r i)"
  by (simp add: growthBase_def)


lemma spd_log:
  assumes "1 + i \<noteq> 0" and "\<not> gateTrips L w r i"
  shows "savingsPayoutDuration (Fin L) (Fin w) (Fin r) (Fin i) =
           (if logArgument L w r i < 0 then \<lparr>years = NaN, months = NaN\<rparr>
            else durationRecord (realDuration L w r i))"
proof -
  define b where "b = growthBase r i"
  have b: "0 < b" "b \<noteq> 1" "w * b \<noteq> 0" "L * (b - 1) < w * b"
    using assms(2) by (auto simp add: gateTrips_def Let_def b_def)
  then have lnb: "ln b \<noteq> 0" by simp
  have x0: "logArgument L w r i \<noteq> 0"
    using b by (simp add: logArgument_def Let_def b_def [symmetric])
  have arg: "js_sub (Fin 1) (js_div (js_mul (Fin L) (js_sub (Fin b) (Fin 1))) (js_mul (Fin w) (Fin b)))
             = Fin (logArgument L w r i)"
    using b by (simp add: logArgument_def Let_def b_def [symmetric] js_sub_Fin)
  have nogate: "\<not> (js_eq (js_mul (Fin w) (Fin b)) (Fin 0) \<or> js_le (Fin b) (Fin 0) \<or> js_eq (Fin b) (Fin 1)
            \<or> js_ge (js_mul (Fin L) (js_sub (Fin b) (Fin 1))) (js_mul (Fin w) (Fin b)))"
    using b by (simp add: js_le_Fin js_ge_Fin js_sub_Fin)
  have logb: "js_log (Fin b) = Fin (ln b)" using b by simp
  show ?thesis
    unfolding savingsPayoutDuration_def Let_def base_Fin [OF assms(1)] b_def [symmetric]
              if_not_P [OF nogate] arg logb
    using x0 lnb by (simp add: durationRecord_def realDuration_def b_def [symmetric])
qed

lemma rem_nonneg:
  assumes "0 \<le> m"
  shows "js_rem (Fin (of_int m)) (Fin 12) = Fin (of_int (m mod 12))"
proof -
  have "0 \<le> (of_int m :: real) / 12" using assms by simp
  then have "js_trunc (of_int m / 12) = \<lfloor>(of_int m :: real) / of_int 12\<rfloor>"
    by (simp add: js_trunc_def)
  also have "\<dots> = m div 12" by (rule floor_divide_of_int_eq)
  finally have "js_trunc (of_int m / 12) = m div 12" .
  moreover have "m - 12 * (m div 12) = m mod 12" by (simp add: minus_mult_div_eq_mod)
  ultimately show ?thesis
    by (simp flip: of_int_diff of_int_mult)
qed





lemma example_base: "growthBase 0.05 0.02 = 35 / 34"
  by (simp add: growthBase_def)



lemma log_half: "- ln (1 / 2 :: real) / ln 2 = 1"
  by (simp add: ln_div)



lemma spd_zero_savings:
  "savingsPayoutDuration (Fin 0) (Fin 1) (Fin 1) (Fin 0) = \<lparr>years = Fin 0, months = Fin 0\<rparr>"
proof -
  have g: "\<not> gateTrips 0 1 1 0" by (simp add: gateTrips_def growthBase_def Let_def)
  have a: "logArgument 0 1 1 0 = 1" by (simp add: logArgument_def growthBase_def Let_def)
  have d: "realDuration 0 1 1 0 = 0"
    unfolding realDuration_def a by simp
  have "js_rem (Fin (of_int 0)) (Fin 12) = Fin (of_int (0 mod 12))"
    by (rule rem_nonneg) simp
  then have "durationRecord 0 = \<lparr>years = Fin 0, months = Fin 0\<rparr>"
    by (simp add: durationRecord_def)
  then show ?thesis using spd_log [of 0 0 1 1] g a d by simp
qed

subsection \<open>The savings calculator\<close>

lemma not_lt_iff_ge: "x \<noteq> NaN \<Longrightarrow> y \<noteq> NaN \<Longrightarrow> (\<not> js_lt x y) = js_ge x y"
  by (cases x; cases y) (auto simp add: js_ge_def js_le_def)

lemma lt_NaN: "js_lt x NaN = False" "js_lt NaN y = False"
  by (cases x) simp_all

lemma csd_code:
  "calculateSavingsDuration iv inp lumpSum =
     (if js_lt (evenPayout iv inp lumpSum) (targetMinimumIncome iv inp)
      then targetIncomeResult iv inp lumpSum
      else fullHorizonResult iv inp lumpSum)"
  by (simp add: calculateSavingsDuration_def Let_def evenPayout_def targetMinimumIncome_def
      retirementHorizon_def fullHorizonResult_def targetIncomeResult_def incomeGrowthRate_def)

lemma csd_amended:
  "calculateSavingsDuration iv inp lumpSum =
     (if js_ge (evenPayout iv inp lumpSum) (targetMinimumIncome iv inp)
         \<or> evenPayout iv inp lumpSum = NaN \<or> targetMinimumIncome iv inp = NaN
      then fullHorizonResult iv inp lumpSum
      else targetIncomeResult iv inp lumpSum)"
proof (cases "evenPayout iv inp lumpSum = NaN \<or> targetMinimumIncome iv inp = NaN")
  case True
  then show ?thesis unfolding csd_code by (auto simp add: lt_NaN)
next
  case False
  then show ?thesis unfolding csd_code using not_lt_iff_ge by auto
qed

lemma zero_horizon_target: "targetMinimumIncome shortHorizon sampleSaver = Fin 80000"
  by (simp add: targetMinimumIncome_def shortHorizon_def sampleSaver_def defaultValues_def
      incomeGrowthRate_def orDefault_def futureValue_def js_sub_def fin_pow_def is_integral_def)

lemma zero_horizon_years: "retirementHorizon shortHorizon sampleSaver = Fin 0"
  by (simp add: retirementHorizon_def shortHorizon_def sampleSaver_def defaultValues_def
      getMaximumRetirementAge_def orDefault_def js_sub_def)

lemma zero_horizon_payout: "evenPayout shortHorizon sampleSaver (Fin 0) = NaN"
  unfolding evenPayout_def zero_horizon_years
  by (simp add: shortHorizon_def defaultValues_def orDefault_def savingsPayout_def
      futureValue_def geometricSeries_def js_sub_def js_gt_def fin_pow_def is_integral_def Let_def)

lemma cts_formula:
  "calculateTotalSavings iv cb ac y =
     js_add (futureValue cb (savingsReturnRate iv) y)
       (if js_gt ac (Fin 0)
        then js_mul ac (geometricSeries (Fin 1)
               (js_mul (js_add (Fin 1) (savingsReturnRate iv)) (js_add (Fin 1) (incomeGrowthRate iv))) y)
        else Fin 0)"
  by (simp add: calculateTotalSavings_def Let_def savingsReturnRate_def incomeGrowthRate_def)

lemma le_zero_not_gt: "js_le ac (Fin 0) \<Longrightarrow> \<not> js_gt ac (Fin 0)"
  by (cases ac) (auto simp add: js_le_def js_gt_def)

lemma cts_no_contribution:
  "js_le ac (Fin 0) \<Longrightarrow> calculateTotalSavings iv cb ac y = futureValue cb (savingsReturnRate iv) y"
  by (simp add: cts_formula le_zero_not_gt js_add_zero_right)

lemma cts_example:
  "calculateTotalSavings (defaultValues\<lparr>annualRetirementSavingsReturnPercent := Some (Fin 0.08)\<rparr>)
     (Fin 100000) (Fin 0) (Fin 10) = futureValue (Fin 100000) (Fin 0.08) (Fin 10)"
  by (simp add: cts_no_contribution js_le_def savingsReturnRate_def orDefault_def)

lemma cprs_code:
  "calculateProjectedRetirementSavings iv inp tc =
     js_max (phaseA iv inp tc)
       (if js_gt (remainingYears iv inp) (Fin 0)
        then calculateTotalSavings iv (phaseA iv inp tc) (Fin 0) (remainingYears iv inp)
        else Fin 0)"
  by (simp add: calculateProjectedRetirementSavings_def Let_def phaseA_def remainingYears_def)

lemma gs_no_terms: "geometricSeries (Fin 1) (Fin q) (Fin 0) = Fin 0"
  by (simp add: geometricSeries_def js_sub_def js_gt_def fin_pow_def is_integral_def Let_def)

lemma cts_zero_years:
  assumes "savingsReturnRate iv = Fin s" and "incomeGrowthRate iv = Fin g"
  shows "calculateTotalSavings iv (Fin cs) (Fin c) (Fin 0) = Fin cs"
  unfolding cts_formula assms
  by (simp add: futureValue_def gs_no_terms del: js_pow.simps) simp

lemma phaseA_zero_years:
  assumes "currentAge inp = Fin a" and "retirementAge inp = Fin a"
    and "currentSavings inp = Some (Fin cs)"
    and "savingsReturnRate iv = Fin s" and "incomeGrowthRate iv = Fin g"
  shows "phaseA iv inp (Fin c) = Fin cs"
  using cts_zero_years [OF assms(4,5)]
  by (simp add: phaseA_def assms(1,2,3) orDefault_def js_sub_def)

lemma remaining_zero_years:
  assumes "currentAge inp = Fin a" and "retirementAge inp = Fin a"
    and "getMaximumRetirementAge iv (Fin a) = Fin e"
  shows "remainingYears iv inp = Fin (e - a)"
  by (simp add: remainingYears_def assms js_sub_def)

lemma cprs_zero_years:
  assumes "currentAge inp = Fin a" and "retirementAge inp = Fin a"
    and "currentSavings inp = Some (Fin cs)"
    and "savingsReturnRate iv = Fin s" and "incomeGrowthRate iv = Fin g"
    and "getMaximumRetirementAge iv (Fin a) = Fin e"
  shows "calculateProjectedRetirementSavings iv inp (Fin c) =
           js_max (Fin cs)
             (if a < e then futureValue (Fin cs) (Fin s) (Fin (e - a)) else Fin 0)"
  unfolding cprs_code phaseA_zero_years [OF assms(1-5)] remaining_zero_years [OF assms(1,2,6)]
  using assms(4) by (simp add: js_gt_def cts_no_contribution js_le_def)

lemma grown_ge:
  assumes "0 \<le> cs" and "0 \<le> s" and "0 \<le> y"
  shows "futureValue (Fin cs) (Fin s) (Fin y) = Fin (cs * (1 + s) powr y)"
    and "js_max (Fin cs) (Fin (cs * (1 + s) powr y)) = Fin (cs * (1 + s) powr y)"
proof -
  show "futureValue (Fin cs) (Fin s) (Fin y) = Fin (cs * (1 + s) powr y)"
    using assms(2) by (intro futureValue_real) simp
  have "1 \<le> (1 + s) powr y" using assms(2,3) by (simp add: ge_one_powr_ge_zero)
  then have "cs * 1 \<le> cs * (1 + s) powr y" using assms(1) by (intro mult_left_mono) simp_all
  then show "js_max (Fin cs) (Fin (cs * (1 + s) powr y)) = Fin (cs * (1 + s) powr y)"
    by simp
qed

subsection \<open>Years by floor, months by rounding\<close>

text \<open>
  The whole years are the floor of the duration while the months come from the duration
  rounded to whole months, so a duration within half a month below a whole year keeps the
  lower year and shows 0 months. With lump sum 1, return rate 1 and no inflation, the
  withdrawal 100/149 lasts about 1.97 years and is returned as 1 year and 0 months, and the
  larger withdrawal 10/13 lasts about 1.51 years and is returned as 1 year and 6 months.
\<close>

lemma log2_lower:
  fixes x :: real
  assumes "0 < x" and "x ^ 24 * 2 ^ k \<le> 1"
  shows "real k / 24 \<le> - ln x / ln 2"
proof -
  have ln2: "0 < ln (2::real)" by simp
  have p: "0 < x ^ 24" using assms(1) by simp
  have "ln (x ^ 24 * 2 ^ k) \<le> ln 1"
    using assms(2) p by (subst ln_le_cancel_iff) simp_all
  then have "24 * ln x + real k * ln 2 \<le> 0"
    using assms(1) by (simp add: ln_mult ln_realpow)
  then have "real k * ln 2 \<le> 24 * (- ln x)" by simp
  then show ?thesis using ln2 by (simp add: field_simps)
qed

lemma log2_upper:
  fixes x :: real
  assumes "0 < x" and "1 < x ^ 24 * 2 ^ k"
  shows "- ln x / ln 2 < real k / 24"
proof -
  have ln2: "0 < ln (2::real)" by simp
  have p: "0 < x ^ 24" using assms(1) by simp
  have "ln 1 < ln (x ^ 24 * 2 ^ k)"
    using assms(2) p by (subst ln_less_cancel_iff) simp_all
  then have "0 < 24 * ln x + real k * ln 2"
    using assms(1) by (simp add: ln_mult ln_realpow)
  then have "24 * (- ln x) < real k * ln 2" by simp
  then show ?thesis using ln2 by (simp add: field_simps)
qed

lemma spd_base_two:
  assumes "\<not> gateTrips 1 w 1 0" and "logArgument 1 w 1 0 = x" and "0 < x"
  shows "savingsPayoutDuration (Fin 1) (Fin w) (Fin 1) (Fin 0) = durationRecord (- ln x / ln 2)"
proof -
  have "realDuration 1 w 1 0 = - ln x / ln 2"
    by (simp add: realDuration_def assms(2) growthBase_def)
  then show ?thesis using spd_log [of 0 1 w 1] assms by simp
qed

lemma spd_months_wrap:
  "savingsPayoutDuration (Fin 1) (Fin (100 / 149)) (Fin 1) (Fin 0) = \<lparr>years = Fin 1, months = Fin 0\<rparr>"
proof -
  define d :: real where "d = - ln (51 / 200) / ln 2"
  have g: "\<not> gateTrips 1 (100 / 149) 1 0" by (simp add: gateTrips_def growthBase_def Let_def)
  have a: "logArgument 1 (100 / 149) 1 0 = 51 / 200"
    by (simp add: logArgument_def growthBase_def Let_def)
  have lo: "real 47 / 24 \<le> d" unfolding d_def
    by (rule log2_lower) (simp_all add: power_divide)
  have hi: "d < real 48 / 24" unfolding d_def
    by (rule log2_upper) (simp_all add: power_divide)
  have y: "\<lfloor>d\<rfloor> = 1" using lo hi by (simp add: floor_eq_iff)
  have t: "\<lfloor>d * 12 + 1 / 2\<rfloor> = 24" using lo hi by (simp add: floor_eq_iff)
  have "js_rem (Fin (of_int 24)) (Fin 12) = Fin (of_int (24 mod 12))"
    by (rule rem_nonneg) simp
  then have "durationRecord d = \<lparr>years = Fin 1, months = Fin 0\<rparr>"
    by (simp add: durationRecord_def y t)
  then show ?thesis using spd_base_two [OF g a] by (simp add: d_def)
qed

lemma spd_year_and_half:
  "savingsPayoutDuration (Fin 1) (Fin (10 / 13)) (Fin 1) (Fin 0) = \<lparr>years = Fin 1, months = Fin 6\<rparr>"
proof -
  define d :: real where "d = - ln (7 / 20) / ln 2"
  have g: "\<not> gateTrips 1 (10 / 13) 1 0" by (simp add: gateTrips_def growthBase_def Let_def)
  have a: "logArgument 1 (10 / 13) 1 0 = 7 / 20"
    by (simp add: logArgument_def growthBase_def Let_def)
  have lo: "real 35 / 24 \<le> d" unfolding d_def
    by (rule log2_lower) (simp_all add: power_divide)
  have hi: "d < real 37 / 24" unfolding d_def
    by (rule log2_upper) (simp_all add: power_divide)
  have y: "\<lfloor>d\<rfloor> = 1" using lo hi by (simp add: floor_eq_iff)
  have t: "\<lfloor>d * 12 + 1 / 2\<rfloor> = 18" using lo hi by (simp add: floor_eq_iff)
  have "js_rem (Fin (of_int 18)) (Fin 12) = Fin (of_int (18 mod 12))"
    by (rule rem_nonneg) simp
  then have "durationRecord d = \<lparr>years = Fin 1, months = Fin 6\<rparr>"
    by (simp add: durationRecord_def y t)
  then show ?thesis using spd_base_two [OF g a] by (simp add: d_def)
qed

lemma months_wrap_example:
  "(100 / 149 :: real) < 10 / 13
   \<and> durationLess (savingsPayoutDuration (Fin 1) (Fin (100 / 149)) (Fin 1) (Fin 0))
                    (savingsPayoutDuration (Fin 1) (Fin (10 / 13)) (Fin 1) (Fin 0))"
  unfolding spd_months_wrap spd_year_and_half by (simp add: durationLess_def)

subsection \<open>The payout duration in the operations of the language\<close>







lemma gmra_finite:
  assumes "orDefault (normalRetirementAge iv) (Fin 65) = Fin n"
    and "orDefault (withdrawalAge iv) (Fin 75) = Fin wd"
  shows "getMaximumRetirementAge iv (Fin a) = Fin (min wd (max n a))"
  by (auto simp add: getMaximumRetirementAge_def assms)

lemma shrunk_le:
  assumes "0 \<le> cs" and "- 1 < s" and "s \<le> 0" and "0 \<le> y"
  shows "futureValue (Fin cs) (Fin s) (Fin y) = Fin (cs * (1 + s) powr y)"
    and "js_max (Fin cs) (Fin (cs * (1 + s) powr y)) = Fin cs"
proof -
  show "futureValue (Fin cs) (Fin s) (Fin y) = Fin (cs * (1 + s) powr y)"
    using assms(2) by (intro futureValue_real) simp
  have "(1 + s) powr y \<le> 1" using assms(2,3,4) by (intro powr_le1) simp_all
  then have "cs * (1 + s) powr y \<le> cs * 1" using assms(1) by (intro mult_left_mono) simp_all
  then show "js_max (Fin cs) (Fin (cs * (1 + s) powr y)) = Fin cs"
    by simp
qed

lemma negative_return_example:
  "getMaximumRetirementAge negativeReturn (retirementAge earlyRetiree) = Fin 65"
  "calculateTotalSavings negativeReturn (Fin 20000) (Fin 0) (Fin 5) = Fin 625"
  "calculateProjectedRetirementSavings negativeReturn earlyRetiree (Fin 5000) = Fin 20000"
proof -
  have rates: "savingsReturnRate negativeReturn = Fin (- 0.5)" "incomeGrowthRate negativeReturn = Fin 0"
    by (simp_all add: savingsReturnRate_def incomeGrowthRate_def negativeReturn_def
        defaultValues_def orDefault_def)
  have inp: "currentAge earlyRetiree = Fin 60" "retirementAge earlyRetiree = Fin 60"
    "currentSavings earlyRetiree = Some (Fin 20000)"
    by (simp_all add: earlyRetiree_def)
  show e: "getMaximumRetirementAge negativeReturn (retirementAge earlyRetiree) = Fin 65"
    by (simp add: inp getMaximumRetirementAge_def negativeReturn_def defaultValues_def orDefault_def)
  have fv: "futureValue (Fin 20000) (Fin (- 0.5)) (Fin 5) = Fin 625"
    by (simp add: futureValue_def fin_pow_def is_integral_def power_int_def power_divide)
  show "calculateTotalSavings negativeReturn (Fin 20000) (Fin 0) (Fin 5) = Fin 625"
    using cts_no_contribution [of "Fin 0" negativeReturn "Fin 20000" "Fin 5"] rates fv
    by (simp add: js_le_def)
  show "calculateProjectedRetirementSavings negativeReturn earlyRetiree (Fin 5000) = Fin 20000"
    using cprs_zero_years [OF inp rates, of 65 5000] e inp fv by simp
qed

lemma small_savings_example:
  "savingsPayoutDuration (Fin 100) (Fin 5000) (Fin 0.05) (Fin 0.02) = \<lparr>years = Fin 0, months = Fin 0\<rparr>"
proof -
  define d :: real where "d = realDuration 100 5000 0.05 0.02"
  have g: "\<not> gateTrips 100 5000 0.05 0.02" by (simp add: gateTrips_def growthBase_def Let_def)
  have a: "logArgument 100 5000 0.05 0.02 = 1749 / 1750"
    by (simp add: logArgument_def growthBase_def Let_def)
  have d_eq: "d = ln (1750 / 1749) / ln (35 / 34)"
  proof -
    have "- ln (1749 / 1750 :: real) = ln (1750 / 1749)" by (simp add: ln_div)
    then show ?thesis unfolding d_def realDuration_def a example_base by simp
  qed
  have lnb: "0 < ln (35 / 34 :: real)" by simp
  have lo: "0 \<le> d" unfolding d_eq using lnb by simp
  have "((1750 / 1749) ^ 24 :: real) < 35 / 34" by (simp add: power_divide)
  then have "ln ((1750 / 1749) ^ 24 :: real) < ln (35 / 34)" by (subst ln_less_cancel_iff) simp_all
  then have "24 * ln (1750 / 1749 :: real) < ln (35 / 34)" by (simp add: ln_realpow)
  then have hi: "d < 1 / 24" unfolding d_eq using lnb by (simp add: field_simps)
  have y: "\<lfloor>d\<rfloor> = 0" using lo hi by (simp add: floor_eq_iff)
  have t: "\<lfloor>d * 12 + 1 / 2\<rfloor> = 0" using lo hi by (simp add: floor_eq_iff)
  have "js_rem (Fin (of_int 0)) (Fin 12) = Fin (of_int (0 mod 12))"
    by (rule rem_nonneg) simp
  then have "durationRecord d = \<lparr>years = Fin 0, months = Fin 0\<rparr>"
    by (simp add: durationRecord_def y t)
  moreover have "1 + (0.02::real) \<noteq> 0" by simp
  ultimately show ?thesis using spd_log [OF _ g] a by (simp add: d_def)
qed

section \<open>The claims\<close>

subsection \<open>C1: zero denominators\<close>

text \<open>
  C1 as stated: whenever a ratio or duration formula divides by a zero denominator the
  sentinel is returned, in particular \<open>savingsPayout\<close> returns 0 when its years argument
  makes the geometric-series denominator zero. At principal 100, rate 0.05 and years 0 the
  denominator is zero and \<open>savingsPayout\<close> returns plus infinity, not 0.
\<close>

theorem savingsPayout_sentinel_counterexample:
  "geometricSeries (Fin 0) (js_add (Fin 1) (Fin 0.05)) (js_sub (Fin 0) (Fin 1)) = Fin 0
   \<and> savingsPayout (Fin 100) (Fin 0.05) (Fin 0) = PInf
   \<and> savingsPayout (Fin 100) (Fin 0.05) (Fin 0) \<noteq> Fin 0"
  by (simp add: savingsPayout_def futureValue_def geometricSeries_def js_sub_def js_gt_def
      fin_pow_def is_integral_def Let_def)

text \<open>
  C1 as amended: \<open>safeDivide\<close> returns 0 on a zero denominator, and
  \<open>savingsPayoutDuration\<close> returns zero years and zero months whenever its denominator
  \<open>withdrawal * base\<close> is zero; \<open>savingsPayout\<close> has no such guard: with years 0 it
  returns the plain quotient, which is never a finite number, whatever the principal and rate.
\<close>

theorem zero_denominator_results:
  "safeDivide n (Fin 0) = Fin 0
   \<and> (js_eq (js_mul w (js_div (js_add (Fin 1) r) (js_add (Fin 1) i))) (Fin 0)
        \<longrightarrow> savingsPayoutDuration s w r i = \<lparr>years = Fin 0, months = Fin 0\<rparr>)
   \<and> (\<forall>a. savingsPayout p q (Fin 0) \<noteq> Fin a)"
  by (simp add: safeDivide_def savingsPayoutDuration_def Let_def savingsPayout_zero_years)

theorem zero_denominator_results_witness:
  "js_eq (js_mul (Fin 0) (js_div (js_add (Fin 1) (Fin 1)) (js_add (Fin 1) (Fin 0)))) (Fin 0)
   \<and> savingsPayoutDuration (Fin 1) (Fin 0) (Fin 1) (Fin 0) = \<lparr>years = Fin 0, months = Fin 0\<rparr>"
  using zero_denominator_results [where w = "Fin 0" and r = "Fin 1" and i = "Fin 0" and s = "Fin 1"]
  by simp

subsection \<open>C2: larger withdrawals, shorter durations\<close>




subsection \<open>C3: the feasibility gate\<close>

text \<open>
  C3 as stated: the result is zero years and zero months if and only if one of the gate
  conditions holds. With lump sum 0, withdrawal 1, return rate 1 and inflation 0 no gate
  condition holds, the logarithmic branch runs, and the result is zero years and zero months;
  so it is with lump sum 100, withdrawal 5000, return rate 0.05 and inflation 0.02, where the
  duration is less than half a month.
\<close>

theorem gate_iff_counterexample:
  "\<not> gateTrips 0 1 1 0
   \<and> savingsPayoutDuration (Fin 0) (Fin 1) (Fin 1) (Fin 0) = \<lparr>years = Fin 0, months = Fin 0\<rparr>
   \<and> \<not> feasibilityGate (Fin 0) (Fin 1) (Fin 1) (Fin 0)
   \<and> \<not> feasibilityGate (Fin 100) (Fin 5000) (Fin 0.05) (Fin 0.02)
   \<and> savingsPayoutDuration (Fin 100) (Fin 5000) (Fin 0.05) (Fin 0.02)
       = \<lparr>years = Fin 0, months = Fin 0\<rparr>"
proof -
  have "\<not> gateTrips 0 1 1 0" by (simp add: gateTrips_def growthBase_def Let_def)
  moreover have "\<not> feasibilityGate (Fin 0) (Fin 1) (Fin 1) (Fin 0)"
    by (simp add: feasibilityGate_def Let_def js_sub_def js_le_def js_ge_def)
  moreover have "\<not> feasibilityGate (Fin 100) (Fin 5000) (Fin 0.05) (Fin 0.02)"
    by (simp add: feasibilityGate_def Let_def js_sub_def js_le_def js_ge_def)
  ultimately show ?thesis using spd_zero_savings small_savings_example by simp
qed

text \<open>
  C3 as amended: with \<open>base = (1 + returnRate) / (1 + inflationRate)\<close> and
  \<open>adjustedGrowth = base - 1\<close>, the function returns zero years and zero months whenever
  \<open>fixedWithdrawal * base = 0\<close>, \<open>base \<le> 0\<close>, \<open>base = 1\<close> or
  \<open>lumpSum * adjustedGrowth \<ge> fixedWithdrawal * base\<close>, each evaluated in the arithmetic and
  the comparisons of the language.
\<close>

theorem feasibility_gate_sentinel:
  "js_eq (js_mul wj (js_div (js_add (Fin 1) rj) (js_add (Fin 1) ij))) (Fin 0)
      \<or> js_le (js_div (js_add (Fin 1) rj) (js_add (Fin 1) ij)) (Fin 0)
      \<or> js_eq (js_div (js_add (Fin 1) rj) (js_add (Fin 1) ij)) (Fin 1)
      \<or> js_ge (js_mul sj (js_sub (js_div (js_add (Fin 1) rj) (js_add (Fin 1) ij)) (Fin 1)))
               (js_mul wj (js_div (js_add (Fin 1) rj) (js_add (Fin 1) ij)))
     \<longrightarrow> savingsPayoutDuration sj wj rj ij = \<lparr>years = Fin 0, months = Fin 0\<rparr>"
proof
  assume gate: "js_eq (js_mul wj (js_div (js_add (Fin 1) rj) (js_add (Fin 1) ij))) (Fin 0)
      \<or> js_le (js_div (js_add (Fin 1) rj) (js_add (Fin 1) ij)) (Fin 0)
      \<or> js_eq (js_div (js_add (Fin 1) rj) (js_add (Fin 1) ij)) (Fin 1)
      \<or> js_ge (js_mul sj (js_sub (js_div (js_add (Fin 1) rj) (js_add (Fin 1) ij)) (Fin 1)))
               (js_mul wj (js_div (js_add (Fin 1) rj) (js_add (Fin 1) ij)))"
  show "savingsPayoutDuration sj wj rj ij = \<lparr>years = Fin 0, months = Fin 0\<rparr>"
    unfolding savingsPayoutDuration_def Let_def if_P [OF gate] by (rule refl)
qed

theorem feasibility_gate_sentinel_witness:
  "js_eq (js_div (js_add (Fin 1) (Fin 0.03)) (js_add (Fin 1) (Fin 0.03))) (Fin 1)
   \<and> savingsPayoutDuration (Fin 100000) (Fin 5000) (Fin 0.03) (Fin 0.03)
       = \<lparr>years = Fin 0, months = Fin 0\<rparr>"
  using feasibility_gate_sentinel [where sj = "Fin 100000" and wj = "Fin 5000" and rj = "Fin 0.03"
      and ij = "Fin 0.03"]
  by simp

subsection \<open>C4: income and duration of the retirement\<close>

text \<open>
  C4 as stated: when the even payout is greater than or equal to the target minimum the
  result carries the payout over the whole horizon, otherwise it carries the target income
  and the duration of \<open>savingsPayoutDuration\<close>. With no savings, a retirement at 60 and an
  end of retirement at the normal retirement age 65, the horizon is 0 and the even payout is
  0 / 0, that is NaN: NaN is not greater than or equal to the target 80000, yet the code reports
  NaN as the yearly income, since it only tests whether the payout is less than the target.
\<close>

theorem income_branch_counterexample:
  "evenPayout shortHorizon sampleSaver (Fin 0) = NaN
   \<and> targetMinimumIncome shortHorizon sampleSaver = Fin 80000
   \<and> projectedYearlyIncome (calculateSavingsDuration shortHorizon sampleSaver (Fin 0)) = NaN
   \<and> projectedYearlyIncome (projectIncomeAndDuration shortHorizon sampleSaver (Fin 0)) = Fin 80000
   \<and> calculateSavingsDuration shortHorizon sampleSaver (Fin 0)
       \<noteq> projectIncomeAndDuration shortHorizon sampleSaver (Fin 0)"
proof -
  have code: "projectedYearlyIncome (calculateSavingsDuration shortHorizon sampleSaver (Fin 0)) = NaN"
    unfolding csd_code zero_horizon_payout by (simp add: fullHorizonResult_def zero_horizon_payout)
  have spec: "projectedYearlyIncome (projectIncomeAndDuration shortHorizon sampleSaver (Fin 0)) = Fin 80000"
    unfolding projectIncomeAndDuration_def zero_horizon_payout zero_horizon_target
    by (simp add: js_ge_def js_le_def targetIncomeResult_def Let_def zero_horizon_target)
  have "calculateSavingsDuration shortHorizon sampleSaver (Fin 0)
        \<noteq> projectIncomeAndDuration shortHorizon sampleSaver (Fin 0)"
    using code spec by auto
  then show ?thesis using code spec zero_horizon_payout zero_horizon_target by simp
qed

text \<open>
  C4 as amended: the target minimum income is
  \<open>futureValue(annualIncome, incomeGrowthRate, retirementAge - currentAge) * max(0, ratio)\<close>,
  the horizon is \<open>endOfRetirementAge - effectiveRetirementAge(retirementAge)\<close>, and the even
  payout is \<open>savingsPayout(lumpSum, postRetirementReturnRate - inflationRate, horizon)\<close>. If
  the even payout is greater than or equal to the target, or either of the two is NaN, the
  result carries the payout as yearly income with the horizon as years and 0 months; otherwise
  years and months come from \<open>savingsPayoutDuration\<close> at the target income, which is the yearly
  income. The monthly income is the yearly income divided by 12 in both cases.
\<close>

theorem savings_duration_result:
  "calculateSavingsDuration iv inp lumpSum =
     (if js_ge (evenPayout iv inp lumpSum) (targetMinimumIncome iv inp)
         \<or> evenPayout iv inp lumpSum = NaN \<or> targetMinimumIncome iv inp = NaN
      then \<lparr>years = retirementHorizon iv inp, months = Fin 0,
            projectedMonthlyIncome = js_div (evenPayout iv inp lumpSum) (Fin 12),
            projectedYearlyIncome = evenPayout iv inp lumpSum\<rparr>
      else \<lparr>years = years (savingsPayoutDuration lumpSum (targetMinimumIncome iv inp)
                       (orDefault (annualPostRetirementReturnPercent iv) (Fin 0.05))
                       (orDefault (annualInflationPercent iv) (Fin 0.03))),
            months = months (savingsPayoutDuration lumpSum (targetMinimumIncome iv inp)
                       (orDefault (annualPostRetirementReturnPercent iv) (Fin 0.05))
                       (orDefault (annualInflationPercent iv) (Fin 0.03))),
            projectedMonthlyIncome = js_div (targetMinimumIncome iv inp) (Fin 12),
            projectedYearlyIncome = targetMinimumIncome iv inp\<rparr>)
   \<and> targetMinimumIncome iv inp =
       js_mul (futureValue (annualIncome inp) (orDefault (annualIncomeIncreasePercent iv) (Fin 0))
                 (js_sub (retirementAge inp) (currentAge inp)))
              (js_max (Fin 0) (orDefault (minAnnualRetirementIncomePercent iv) (Fin 0.8)))
   \<and> retirementHorizon iv inp =
       js_sub (orDefault (endOfRetirementAge iv) (Fin 95))
              (getMaximumRetirementAge iv (retirementAge inp))
   \<and> evenPayout iv inp lumpSum =
       savingsPayout lumpSum
         (js_sub (orDefault (annualPostRetirementReturnPercent iv) (Fin 0.05))
                 (orDefault (annualInflationPercent iv) (Fin 0.03)))
         (retirementHorizon iv inp)"
  using csd_amended [of iv inp lumpSum]
  by (simp add: fullHorizonResult_def targetIncomeResult_def Let_def targetMinimumIncome_def
      incomeGrowthRate_def retirementHorizon_def evenPayout_def)

subsection \<open>C5: projected retirement savings\<close>

text \<open>
  C5 as stated: with zero working years the result is the current balance unchanged, or its
  phase-B-grown value when the effective retirement age exceeds the requested age. At a
  savings return rate of -0.5, current and requested age 60 and a balance of 20000, the
  effective retirement age is 65, the balance grown over the 5 remaining years is 625, and
  the result is 20000: the maximum keeps the balance of phase A.
\<close>

theorem grown_value_counterexample:
  "currentAge earlyRetiree = retirementAge earlyRetiree
   \<and> getMaximumRetirementAge negativeReturn (retirementAge earlyRetiree) = Fin 65
   \<and> js_gt (getMaximumRetirementAge negativeReturn (retirementAge earlyRetiree))
            (retirementAge earlyRetiree)
   \<and> calculateTotalSavings negativeReturn (Fin 20000) (Fin 0) (Fin 5) = Fin 625
   \<and> calculateProjectedRetirementSavings negativeReturn earlyRetiree (Fin 5000) = Fin 20000
   \<and> calculateProjectedRetirementSavings negativeReturn earlyRetiree (Fin 5000)
       \<noteq> calculateTotalSavings negativeReturn (Fin 20000) (Fin 0) (Fin 5)"
  unfolding negative_return_example by (simp add: earlyRetiree_def js_gt_def)

text \<open>
  C5 as amended: the result is the maximum of the phase-A projection and the projection of
  the phase-A balance over the remaining years without contributions, where the second is 0
  whenever the remaining years are not positive; the effective retirement age is
  \<open>min(withdrawalAge, max(normalRetirementAge, requestedRetirementAge))\<close>. With zero working
  years (current age equal to the requested retirement age, a current balance \<open>cs \<ge> 0\<close>,
  finite rates and contribution) the result is the current balance when the effective age
  does not exceed the requested age, and the larger of the balance and its value grown over
  the remaining years when it does: the grown value for a return rate that is not negative,
  the balance for a return rate between -1 and 0.
\<close>

theorem projected_retirement_savings:
  "calculateProjectedRetirementSavings iv inp tc =
     js_max (phaseA iv inp tc)
       (if js_gt (remainingYears iv inp) (Fin 0)
        then calculateTotalSavings iv (phaseA iv inp tc) (Fin 0) (remainingYears iv inp)
        else Fin 0)
   \<and> (js_le (remainingYears iv inp) (Fin 0) \<longrightarrow>
        calculateProjectedRetirementSavings iv inp tc = js_max (phaseA iv inp tc) (Fin 0))
   \<and> (orDefault (normalRetirementAge iv) (Fin 65) = Fin n
        \<and> orDefault (withdrawalAge iv) (Fin 75) = Fin wd \<longrightarrow>
        getMaximumRetirementAge iv (Fin a) = Fin (min wd (max n a)))
   \<and> (currentAge inp = Fin a \<and> retirementAge inp = Fin a \<and> currentSavings inp = Some (Fin cs)
        \<and> 0 \<le> cs \<and> savingsReturnRate iv = Fin s \<and> incomeGrowthRate iv = Fin g
        \<and> orDefault (normalRetirementAge iv) (Fin 65) = Fin n
        \<and> orDefault (withdrawalAge iv) (Fin 75) = Fin wd \<longrightarrow>
        phaseA iv inp (Fin c) = Fin cs
        \<and> remainingYears iv inp = Fin (min wd (max n a) - a)
        \<and> (min wd (max n a) \<le> a \<longrightarrow>
             calculateProjectedRetirementSavings iv inp (Fin c) = Fin cs)
        \<and> (a < min wd (max n a) \<longrightarrow>
             calculateProjectedRetirementSavings iv inp (Fin c)
               = js_max (Fin cs) (futureValue (Fin cs) (Fin s) (Fin (min wd (max n a) - a))))
        \<and> (a < min wd (max n a) \<and> 0 \<le> s \<longrightarrow>
             calculateProjectedRetirementSavings iv inp (Fin c)
               = Fin (cs * (1 + s) powr (min wd (max n a) - a))
             \<and> futureValue (Fin cs) (Fin s) (Fin (min wd (max n a) - a))
                 = Fin (cs * (1 + s) powr (min wd (max n a) - a)))
        \<and> (a < min wd (max n a) \<and> - 1 < s \<and> s \<le> 0 \<longrightarrow>
             calculateProjectedRetirementSavings iv inp (Fin c) = Fin cs
             \<and> futureValue (Fin cs) (Fin s) (Fin (min wd (max n a) - a))
                 = Fin (cs * (1 + s) powr (min wd (max n a) - a))))"
proof -
  define e where "e = min wd (max n a)"
  have general: "calculateProjectedRetirementSavings iv inp tc =
     js_max (phaseA iv inp tc)
       (if js_gt (remainingYears iv inp) (Fin 0)
        then calculateTotalSavings iv (phaseA iv inp tc) (Fin 0) (remainingYears iv inp)
        else Fin 0)"
    by (rule cprs_code)
  have skipped: "calculateProjectedRetirementSavings iv inp tc = js_max (phaseA iv inp tc) (Fin 0)"
    if "js_le (remainingYears iv inp) (Fin 0)"
    using le_zero_not_gt [OF that] by (simp add: cprs_code)
  have age: "getMaximumRetirementAge iv (Fin a) = Fin e"
    if "orDefault (normalRetirementAge iv) (Fin 65) = Fin n"
      "orDefault (withdrawalAge iv) (Fin 75) = Fin wd"
    unfolding e_def using that by (rule gmra_finite)
  have zero: "phaseA iv inp (Fin c) = Fin cs
        \<and> remainingYears iv inp = Fin (e - a)
        \<and> (e \<le> a \<longrightarrow> calculateProjectedRetirementSavings iv inp (Fin c) = Fin cs)
        \<and> (a < e \<longrightarrow> calculateProjectedRetirementSavings iv inp (Fin c)
                          = js_max (Fin cs) (futureValue (Fin cs) (Fin s) (Fin (e - a))))
        \<and> (a < e \<and> 0 \<le> s \<longrightarrow>
             calculateProjectedRetirementSavings iv inp (Fin c) = Fin (cs * (1 + s) powr (e - a))
             \<and> futureValue (Fin cs) (Fin s) (Fin (e - a)) = Fin (cs * (1 + s) powr (e - a)))
        \<and> (a < e \<and> - 1 < s \<and> s \<le> 0 \<longrightarrow>
             calculateProjectedRetirementSavings iv inp (Fin c) = Fin cs
             \<and> futureValue (Fin cs) (Fin s) (Fin (e - a)) = Fin (cs * (1 + s) powr (e - a)))"
    if h: "currentAge inp = Fin a" "retirementAge inp = Fin a" "currentSavings inp = Some (Fin cs)"
      "0 \<le> cs" "savingsReturnRate iv = Fin s" "incomeGrowthRate iv = Fin g"
      "orDefault (normalRetirementAge iv) (Fin 65) = Fin n"
      "orDefault (withdrawalAge iv) (Fin 75) = Fin wd"
  proof -
    note eff = age [OF h(7,8)]
    note r = cprs_zero_years [OF h(1,2,3,5,6) eff, of c]
    have p: "phaseA iv inp (Fin c) = Fin cs" by (rule phaseA_zero_years [OF h(1,2,3,5,6)])
    have y: "remainingYears iv inp = Fin (e - a)" by (rule remaining_zero_years [OF h(1,2) eff])
    have le: "calculateProjectedRetirementSavings iv inp (Fin c) = Fin cs" if "e \<le> a"
      using r that h(4) by simp
    have lt: "calculateProjectedRetirementSavings iv inp (Fin c)
              = js_max (Fin cs) (futureValue (Fin cs) (Fin s) (Fin (e - a)))" if "a < e"
      using r that by simp
    have grown: "calculateProjectedRetirementSavings iv inp (Fin c) = Fin (cs * (1 + s) powr (e - a))
             \<and> futureValue (Fin cs) (Fin s) (Fin (e - a)) = Fin (cs * (1 + s) powr (e - a))"
      if "a < e" "0 \<le> s"
    proof -
      have "0 \<le> e - a" using that(1) by simp
      from grown_ge [OF h(4) that(2) this] lt [OF that(1)] show ?thesis by simp
    qed
    have kept: "calculateProjectedRetirementSavings iv inp (Fin c) = Fin cs
             \<and> futureValue (Fin cs) (Fin s) (Fin (e - a)) = Fin (cs * (1 + s) powr (e - a))"
      if "a < e" "- 1 < s" "s \<le> 0"
    proof -
      have "0 \<le> e - a" using that(1) by simp
      from shrunk_le [OF h(4) that(2,3) this] lt [OF that(1)] show ?thesis by simp
    qed
    show ?thesis using p y le lt grown kept by blast
  qed
  show ?thesis unfolding e_def [symmetric] using general skipped age zero by blast
qed

theorem projected_retirement_savings_witness:
  "js_le (remainingYears (defaultValues\<lparr>normalRetirementAge := Some (Fin 55)\<rparr>) earlyRetiree) (Fin 0)
   \<and> calculateProjectedRetirementSavings (defaultValues\<lparr>normalRetirementAge := Some (Fin 55)\<rparr>)
        earlyRetiree (Fin 5000) = Fin 20000
   \<and> getMaximumRetirementAge defaultValues (Fin 60) = Fin 65
   \<and> calculateProjectedRetirementSavings defaultValues earlyRetiree (Fin 5000)
       = Fin (20000 * (1 + 0.08) powr (65 - 60))
   \<and> calculateProjectedRetirementSavings negativeReturn earlyRetiree (Fin 5000) = Fin 20000"
proof -
  let ?iv = "defaultValues\<lparr>normalRetirementAge := Some (Fin 55)\<rparr>"
  have ages: "orDefault (normalRetirementAge ?iv) (Fin 65) = Fin 55"
    "orDefault (withdrawalAge ?iv) (Fin 75) = Fin 75"
    "orDefault (normalRetirementAge defaultValues) (Fin 65) = Fin 65"
    "orDefault (withdrawalAge defaultValues) (Fin 75) = Fin 75"
    "orDefault (normalRetirementAge negativeReturn) (Fin 65) = Fin 65"
    "orDefault (withdrawalAge negativeReturn) (Fin 75) = Fin 75"
    by (simp_all add: defaultValues_def negativeReturn_def orDefault_def)
  have rates: "savingsReturnRate ?iv = Fin 0.08" "incomeGrowthRate ?iv = Fin 0"
    "savingsReturnRate defaultValues = Fin 0.08" "incomeGrowthRate defaultValues = Fin 0"
    "savingsReturnRate negativeReturn = Fin (- 0.5)" "incomeGrowthRate negativeReturn = Fin 0"
    by (simp_all add: savingsReturnRate_def incomeGrowthRate_def defaultValues_def
        negativeReturn_def orDefault_def)
  have inp: "currentAge earlyRetiree = Fin 60" "retirementAge earlyRetiree = Fin 60"
    "currentSavings earlyRetiree = Some (Fin 20000)"
    by (simp_all add: earlyRetiree_def)
  note age =
    projected_retirement_savings [where iv = defaultValues and n = 65 and wd = 75 and a = 60,
      THEN conjunct2, THEN conjunct2, THEN conjunct1]
  note skipped =
    projected_retirement_savings [where iv = ?iv and inp = earlyRetiree and a = 60
      and cs = 20000 and s = "0.08" and g = 0 and n = 55 and wd = 75 and c = 5000,
      THEN conjunct2, THEN conjunct2, THEN conjunct2]
  note grown =
    projected_retirement_savings [where iv = defaultValues and inp = earlyRetiree and a = 60
      and cs = 20000 and s = "0.08" and g = 0 and n = 65 and wd = 75 and c = 5000,
      THEN conjunct2, THEN conjunct2, THEN conjunct2]
  note kept =
    projected_retirement_savings [where iv = negativeReturn and inp = earlyRetiree and a = 60
      and cs = 20000 and s = "- 0.5" and g = 0 and n = 65 and wd = 75 and c = 5000,
      THEN conjunct2, THEN conjunct2, THEN conjunct2]
  have y: "js_le (remainingYears ?iv earlyRetiree) (Fin 0)"
    using skipped inp rates(1,2) ages(1,2) by (simp add: js_le_def)
  have e: "getMaximumRetirementAge defaultValues (Fin 60) = Fin 65"
    using age ages(3,4) by simp
  have "calculateProjectedRetirementSavings ?iv earlyRetiree (Fin 5000) = Fin 20000"
    using skipped inp rates(1,2) ages(1,2) by simp
  moreover have "calculateProjectedRetirementSavings defaultValues earlyRetiree (Fin 5000)
       = Fin (20000 * (1 + 0.08) powr (65 - 60))"
    using grown inp rates(3,4) ages(3,4) by simp
  moreover have "calculateProjectedRetirementSavings negativeReturn earlyRetiree (Fin 5000) = Fin 20000"
    using kept inp rates(5,6) ages(5,6) by (simp add: power_divide)
  ultimately show ?thesis using y e by simp
qed

subsection \<open>C6: total savings\<close>

text \<open>
  C6: \<open>calculateTotalSavings\<close> returns the future value of the current balance at the savings
  return rate plus, only when the annual contribution is greater than 0, the contribution times
  the geometric series from index 1 with ratio \<open>(1 + savingsReturnRate) * (1 + incomeGrowthRate)\<close>;
  when the contribution is less than or equal to 0 the contribution term is 0, so the result
  is exactly the future value of the balance, as for 100000 over 10 years at 0.08.
\<close>

theorem total_savings_formula:
  "calculateTotalSavings iv cb ac y =
     js_add (futureValue cb (savingsReturnRate iv) y)
       (if js_gt ac (Fin 0)
        then js_mul ac (geometricSeries (Fin 1)
               (js_mul (js_add (Fin 1) (savingsReturnRate iv)) (js_add (Fin 1) (incomeGrowthRate iv))) y)
        else Fin 0)
   \<and> (js_le ac (Fin 0) \<longrightarrow>
        \<not> js_gt ac (Fin 0)
        \<and> calculateTotalSavings iv cb ac y = futureValue cb (savingsReturnRate iv) y)
   \<and> calculateTotalSavings iv cb (Fin 0) y = futureValue cb (savingsReturnRate iv) y
   \<and> calculateTotalSavings (defaultValues\<lparr>annualRetirementSavingsReturnPercent := Some (Fin 0.08)\<rparr>)
        (Fin 100000) (Fin 0) (Fin 10) = futureValue (Fin 100000) (Fin 0.08) (Fin 10)"
proof -
  have "js_le (Fin 0) (Fin 0)" by (simp add: js_le_def)
  then have "calculateTotalSavings iv cb (Fin 0) y = futureValue cb (savingsReturnRate iv) y"
    by (rule cts_no_contribution)
  then show ?thesis
    using cts_formula [of iv cb ac y] cts_example
    by (auto simp add: cts_no_contribution le_zero_not_gt)
qed

theorem total_savings_formula_witness:
  "js_le (Fin (- 5)) (Fin 0)
   \<and> calculateTotalSavings defaultValues (Fin 100000) (Fin (- 5)) (Fin 10)
       = futureValue (Fin 100000) (Fin 0.08) (Fin 10)"
proof -
  have le: "js_le (Fin (- 5)) (Fin 0)" by (simp add: js_le_def)
  have r: "savingsReturnRate defaultValues = Fin 0.08"
    by (simp add: savingsReturnRate_def defaultValues_def orDefault_def)
  show ?thesis
    using le r
      total_savings_formula [of defaultValues "Fin 100000" "Fin (- 5)" "Fin 10",
        THEN conjunct2, THEN conjunct1]
    by simp
qed

subsection \<open>C7: the logarithmic branch\<close>

text \<open>
  C7: for every input that passes the feasibility gate, the duration is
  \<open>-1 * Math.log(1 - numerator / denominator) / Math.log(base)\<close> with
  \<open>base = (1 + returnRate) / (1 + inflationRate)\<close>, \<open>numerator = lumpSum * (base - 1)\<close> and
  \<open>denominator = withdrawal * base\<close>, and the record returned has its floor as years and, as
  months, the remainder by 12 of the duration times 12 rounded to the nearest integer, all in
  the arithmetic of the language.
\<close>

theorem payout_duration_formula:
  "\<not> (js_eq (js_mul wj (js_div (js_add (Fin 1) rj) (js_add (Fin 1) ij))) (Fin 0)
        \<or> js_le (js_div (js_add (Fin 1) rj) (js_add (Fin 1) ij)) (Fin 0)
        \<or> js_eq (js_div (js_add (Fin 1) rj) (js_add (Fin 1) ij)) (Fin 1)
        \<or> js_ge (js_mul sj (js_sub (js_div (js_add (Fin 1) rj) (js_add (Fin 1) ij)) (Fin 1)))
                 (js_mul wj (js_div (js_add (Fin 1) rj) (js_add (Fin 1) ij))))
     \<and> dj = js_div (js_mul (Fin (- 1))
                 (js_log (js_sub (Fin 1)
                    (js_div (js_mul sj (js_sub (js_div (js_add (Fin 1) rj) (js_add (Fin 1) ij)) (Fin 1)))
                            (js_mul wj (js_div (js_add (Fin 1) rj) (js_add (Fin 1) ij)))))))
                 (js_log (js_div (js_add (Fin 1) rj) (js_add (Fin 1) ij)))
     \<longrightarrow> savingsPayoutDuration sj wj rj ij =
           \<lparr>years = js_floor dj, months = js_rem (js_round (js_mul dj (Fin 12))) (Fin 12)\<rparr>"
proof
  assume h: "\<not> (js_eq (js_mul wj (js_div (js_add (Fin 1) rj) (js_add (Fin 1) ij))) (Fin 0)
        \<or> js_le (js_div (js_add (Fin 1) rj) (js_add (Fin 1) ij)) (Fin 0)
        \<or> js_eq (js_div (js_add (Fin 1) rj) (js_add (Fin 1) ij)) (Fin 1)
        \<or> js_ge (js_mul sj (js_sub (js_div (js_add (Fin 1) rj) (js_add (Fin 1) ij)) (Fin 1)))
                 (js_mul wj (js_div (js_add (Fin 1) rj) (js_add (Fin 1) ij))))
     \<and> dj = js_div (js_mul (Fin (- 1))
                 (js_log (js_sub (Fin 1)
                    (js_div (js_mul sj (js_sub (js_div (js_add (Fin 1) rj) (js_add (Fin 1) ij)) (Fin 1)))
                            (js_mul wj (js_div (js_add (Fin 1) rj) (js_add (Fin 1) ij)))))))
                 (js_log (js_div (js_add (Fin 1) rj) (js_add (Fin 1) ij)))"
  show "savingsPayoutDuration sj wj rj ij =
           \<lparr>years = js_floor dj, months = js_rem (js_round (js_mul dj (Fin 12))) (Fin 12)\<rparr>"
    unfolding savingsPayoutDuration_def Let_def if_not_P [OF h [THEN conjunct1]]
      h [THEN conjunct2] by (rule refl)
qed

theorem payout_duration_formula_witness:
  "\<not> (js_eq (js_mul (Fin 1) (js_div (js_add (Fin 1) (Fin 1)) (js_add (Fin 1) (Fin 0)))) (Fin 0)
        \<or> js_le (js_div (js_add (Fin 1) (Fin 1)) (js_add (Fin 1) (Fin 0))) (Fin 0)
        \<or> js_eq (js_div (js_add (Fin 1) (Fin 1)) (js_add (Fin 1) (Fin 0))) (Fin 1)
        \<or> js_ge (js_mul (Fin 1) (js_sub (js_div (js_add (Fin 1) (Fin 1)) (js_add (Fin 1) (Fin 0))) (Fin 1)))
                 (js_mul (Fin 1) (js_div (js_add (Fin 1) (Fin 1)) (js_add (Fin 1) (Fin 0)))))
   \<and> savingsPayoutDuration (Fin 1) (Fin 1) (Fin 1) (Fin 0) = \<lparr>years = Fin 1, months = Fin 0\<rparr>"
proof -
  have gate: "\<not> (js_eq (js_mul (Fin 1) (js_div (js_add (Fin 1) (Fin 1)) (js_add (Fin 1) (Fin 0)))) (Fin 0)
        \<or> js_le (js_div (js_add (Fin 1) (Fin 1)) (js_add (Fin 1) (Fin 0))) (Fin 0)
        \<or> js_eq (js_div (js_add (Fin 1) (Fin 1)) (js_add (Fin 1) (Fin 0))) (Fin 1)
        \<or> js_ge (js_mul (Fin 1) (js_sub (js_div (js_add (Fin 1) (Fin 1)) (js_add (Fin 1) (Fin 0))) (Fin 1)))
                 (js_mul (Fin 1) (js_div (js_add (Fin 1) (Fin 1)) (js_add (Fin 1) (Fin 0)))))"
    by (simp add: js_sub_def js_le_def js_ge_def)
  have d: "Fin 1 = js_div (js_mul (Fin (- 1))
                 (js_log (js_sub (Fin 1)
                    (js_div (js_mul (Fin 1) (js_sub (js_div (js_add (Fin 1) (Fin 1)) (js_add (Fin 1) (Fin 0))) (Fin 1)))
                            (js_mul (Fin 1) (js_div (js_add (Fin 1) (Fin 1)) (js_add (Fin 1) (Fin 0))))))))
                 (js_log (js_div (js_add (Fin 1) (Fin 1)) (js_add (Fin 1) (Fin 0))))"
    using log_half by (simp add: js_sub_def)
  have m: "js_rem (Fin (of_int 12)) (Fin 12) = Fin (of_int (12 mod 12))"
    by (rule rem_nonneg) simp
  have "\<lfloor>(12::real) + 1 / 2\<rfloor> = 12" by (simp add: floor_eq_iff)
  then have rec: "\<lparr>years = js_floor (Fin 1),
               months = js_rem (js_round (js_mul (Fin 1) (Fin 12))) (Fin 12)\<rparr>
             = \<lparr>years = Fin 1, months = Fin 0\<rparr>"
    using m by simp
  have "savingsPayoutDuration (Fin 1) (Fin 1) (Fin 1) (Fin 0) = \<lparr>years = Fin 1, months = Fin 0\<rparr>"
    using payout_duration_formula [where sj = "Fin 1" and wj = "Fin 1" and rj = "Fin 1"
        and ij = "Fin 0" and dj = "Fin 1", rule_format, OF conjI [OF gate d]]
    unfolding rec .
  then show ?thesis using gate by blast
qed

subsection \<open>C8: the payout from a lump sum\<close>

text \<open>
  C8: \<open>savingsPayout(p, r, y)\<close> is \<open>futureValue(p, r, y - 1)\<close> divided by
  \<open>geometricSeries(0, 1 + r, y - 1)\<close>, and \<open>futureValue(p, r, y)\<close> is \<open>p\<close> times \<open>1 + r\<close> to the
  power \<open>y\<close>, which for finite numbers with \<open>1 + r > 0\<close> is the real power.
\<close>

theorem payout_from_lump_sum:
  "savingsPayout p r y =
     js_div (futureValue p r (js_sub y (Fin 1)))
            (geometricSeries (Fin 0) (js_add (Fin 1) r) (js_sub y (Fin 1)))
   \<and> futureValue p r y = js_mul p (js_pow (js_add (Fin 1) r) y)
   \<and> (0 < 1 + b \<longrightarrow> futureValue (Fin a) (Fin b) (Fin c) = Fin (a * (1 + b) powr c))"
  by (simp add: savingsPayout_def futureValue_real) (simp add: futureValue_def)

theorem payout_from_lump_sum_witness:
  "(0::real) < 1 + 1 \<and> futureValue (Fin 100) (Fin 1) (Fin 3) = Fin (100 * (1 + 1) powr 3)"
  using payout_from_lump_sum [where b = 1 and a = 100 and c = 3, THEN conjunct2, THEN conjunct2]
  by simp

subsection \<open>C9: the geometric series\<close>

text \<open>
  C9 as stated: for integer indices \<open>a \<le> n\<close> the result is the sum of the powers of the
  ratio from \<open>a\<close> to \<open>n\<close>. The excluded sum is only subtracted for \<open>a > 0\<close>, so with a negative
  start index the powers below index 0 are missing: from index -1 to 0 at ratio 2 the sum
  is 1/2 + 1, and the function returns 1.
\<close>

theorem geometric_series_negative_start_counterexample:
  "(- 1 :: int) \<le> 0
   \<and> geometricSeries (Fin (of_int (- 1))) (Fin 2) (Fin (of_int 0)) = Fin 1
   \<and> (\<Sum>k\<in>{- 1..0::int}. (2::real) powi k) = 3 / 2
   \<and> geometricSeries (Fin (of_int (- 1))) (Fin 2) (Fin (of_int 0))
       \<noteq> Fin (\<Sum>k\<in>{- 1..0::int}. 2 powi k)"
proof -
  have code: "geometricSeries (Fin (of_int (- 1))) (Fin 2) (Fin (of_int 0)) = Fin 1"
    by (simp add: geometricSeries_def js_sub_def js_gt_def fin_pow_def is_integral_def Let_def)
  have "{- 1..0::int} = {- 1, 0}" by auto
  then have total: "(\<Sum>k\<in>{- 1..0::int}. (2::real) powi k) = 3 / 2"
    by (simp add: power_int_minus)
  show ?thesis unfolding code total by simp
qed

text \<open>
  C9 as amended: for integer indices with \<open>0 \<le> a \<le> n\<close> the result is the sum of the powers
  of the ratio from \<open>a\<close> to \<open>n\<close>; at ratio 1 the result is \<open>n - a + 1\<close> for all indices, so \<open>n + 1\<close>
  from index 0; and for \<open>a > 0\<close> and a ratio other than 1 the result is the series from 0 to
  \<open>n\<close> minus the series from 0 to \<open>a - 1\<close>.
\<close>

theorem geometric_series_sum:
  "(0 \<le> a \<and> a \<le> n \<longrightarrow>
      geometricSeries (Fin (of_int a)) (Fin r) (Fin (of_int n)) = Fin (\<Sum>k\<in>{a..n}. r powi k))
   \<and> geometricSeries x (Fin 1) z = js_add (js_sub z x) (Fin 1)
   \<and> geometricSeries (Fin (of_int a)) (Fin 1) (Fin (of_int n)) = Fin (of_int (n - a + 1))
   \<and> geometricSeries (Fin 0) (Fin 1) (Fin (of_int n)) = Fin (of_int n + 1)
   \<and> (0 < c \<and> \<not> js_eq q (Fin 1) \<longrightarrow>
        geometricSeries (Fin c) q z
          = js_sub (geometricSeries (Fin 0) q z)
                   (geometricSeries (Fin 0) q (js_sub (Fin c) (Fin 1))))"
proof -
  have sums: "geometricSeries (Fin (of_int a)) (Fin r) (Fin (of_int n)) = Fin (\<Sum>k\<in>{a..n}. r powi k)"
    if "0 \<le> a \<and> a \<le> n"
    using that by (intro geometricSeries_int) simp_all
  have one: "geometricSeries x (Fin 1) z = js_add (js_sub z x) (Fin 1)" for x z
    by (simp add: geometricSeries_def)
  have count: "geometricSeries (Fin (of_int a)) (Fin 1) (Fin (of_int n)) = Fin (of_int (n - a + 1))"
    unfolding one by (simp add: js_sub_def)
  have count0: "geometricSeries (Fin 0) (Fin 1) (Fin (of_int n)) = Fin (of_int n + 1)"
    unfolding one by (simp add: js_sub_def)
  have dec: "geometricSeries (Fin c) q z
          = js_sub (geometricSeries (Fin 0) q z)
                   (geometricSeries (Fin 0) q (js_sub (Fin c) (Fin 1)))"
    if "0 < c \<and> \<not> js_eq q (Fin 1)"
    using that by (intro geometricSeries_decompose) simp_all
  show ?thesis using sums one count count0 dec by blast
qed

theorem geometric_series_sum_witness:
  "(0::int) \<le> 2 \<and> (2::int) \<le> 4
   \<and> geometricSeries (Fin 2) (Fin 2) (Fin 4) = Fin (\<Sum>k\<in>{2..4::int}. 2 powi k)
   \<and> geometricSeries (Fin 2) (Fin 2) (Fin 4) = Fin 28"
proof -
  have "geometricSeries (Fin 2) (Fin 2) (Fin 4) = Fin 28"
    by (simp add: geometricSeries_def js_sub_def js_gt_def fin_pow_def is_integral_def Let_def)
  then show ?thesis
    using geometric_series_sum [where a = 2 and n = 4 and r = 2, THEN conjunct1] by simp
qed

subsection \<open>C10: the range of the duration\<close>




end
